theory Spec2Isabelle
  imports Complex_Main
begin

section \<open>The scenario data container\<close>

text \<open>
  The cruncher works on labelled timeseries tables (\<open>pyam.IamDataFrame\<close>). In long
  form a table is a list of rows, one per series identity and time step, together with
  the name of its time column (\<open>year\<close> or \<open>time\<close>). A time step is a year number or a
  time stamp; both are integers here. Values are reals; a missing cell of the wide form
  (NaN) is \<open>None\<close>, and the long form holds no missing value.
\<close>

type_synonym time_point = int

record row =
  model :: string
  scenario :: string
  region :: string
  variable :: string
  unit :: string
  time :: time_point
  val :: real

record iam_data_frame =
  data :: "row list"
  time_col :: string

text \<open>
  \<open>unique\<close> is the order of first appearance that \<open>pandas.unique\<close> and a
  column's \<open>unique()\<close> return.
\<close>

definition unique :: "'a list \<Rightarrow> 'a list" where
  "unique xs = rev (remdups (rev xs))"

text \<open>
  \<open>df.filter(scenario=..., variable=[...])\<close> returns a new table with the rows that
  match. A scenario pattern (a name with wild cards, or a list of such) is the set of
  scenario names it accepts; the default \<open>"*"\<close> accepts all. Variable names are matched
  as written.
\<close>

type_synonym scenario_pattern = "string \<Rightarrow> bool"

definition filter_variable :: "string list \<Rightarrow> iam_data_frame \<Rightarrow> iam_data_frame" where
  "filter_variable vs df = df\<lparr>data := filter (\<lambda>r. variable r \<in> set vs) (data df)\<rparr>"

definition filter_scenario_variable ::
  "scenario_pattern \<Rightarrow> string list \<Rightarrow> iam_data_frame \<Rightarrow> iam_data_frame" where
  "filter_scenario_variable required vs df =
     df\<lparr>data := filter (\<lambda>r. required (scenario r) \<and> variable r \<in> set vs) (data df)\<rparr>"

text \<open>
  Modelled from the spec: \<open>_get_unit_of_variable\<close> (of \<open>silicone.utils\<close>, which is not
  among the source files) is the spec's "retrieval of the unit(s) associated with a
  variable": the units of the rows of the given variables, each once. The spec does
  not say what the retrieval does with a variable that has several units; here it
  returns them all.
\<close>

definition get_unit_of_variable :: "iam_data_frame \<Rightarrow> string list \<Rightarrow> string list" where
  "get_unit_of_variable df vs = unique (map unit (data (filter_variable vs df)))"

subsection \<open>The wide form\<close>

text \<open>
  \<open>df.timeseries()\<close> is a new table with one row per series identity (model, scenario,
  region, variable, unit) and one column per time step of the data, in increasing order.
  A cell is the value of the row of that identity and time step, or missing.
\<close>

record ts_row =
  ts_model :: string
  ts_scenario :: string
  ts_region :: string
  ts_variable :: string
  ts_unit :: string
  cells :: "time_point \<Rightarrow> real option"

record timeseries_df =
  columns :: "time_point list"
  rows :: "ts_row list"

type_synonym series_id = "string \<times> string \<times> string \<times> string \<times> string"

definition identity_of :: "row \<Rightarrow> series_id" where
  "identity_of r = (model r, scenario r, region r, variable r, unit r)"

definition series_of :: "row list \<Rightarrow> series_id \<Rightarrow> ts_row" where
  "series_of rs k =
     (case k of (m, s, g, v, u) \<Rightarrow>
        \<lparr>ts_model = m, ts_scenario = s, ts_region = g, ts_variable = v, ts_unit = u,
         cells = (\<lambda>t. map_option val (find (\<lambda>r. identity_of r = k \<and> time r = t) rs))\<rparr>)"

definition timeseries :: "iam_data_frame \<Rightarrow> timeseries_df" where
  "timeseries df =
     \<lparr>columns = sort (remdups (map time (data df))),
      rows = map (series_of (data df)) (unique (map identity_of (data df)))\<rparr>"

text \<open>
  \<open>output_ts[time] = f(output_ts[time])\<close>: the column is read, \<open>f\<close> is applied to each
  of its cells (a missing cell stays missing) and the column is stored back.
\<close>

definition set_column :: "time_point \<Rightarrow> (real \<Rightarrow> real) \<Rightarrow> timeseries_df \<Rightarrow> timeseries_df" where
  "set_column t f w =
     w\<lparr>rows := map (\<lambda>r. r\<lparr>cells := (cells r)(t := map_option f (cells r t))\<rparr>) (rows w)\<rparr>"

definition set_variable :: "string \<Rightarrow> timeseries_df \<Rightarrow> timeseries_df" where
  "set_variable v w = w\<lparr>rows := map (\<lambda>r. r\<lparr>ts_variable := v\<rparr>) (rows w)\<rparr>"

definition set_unit :: "string \<Rightarrow> timeseries_df \<Rightarrow> timeseries_df" where
  "set_unit u w = w\<lparr>rows := map (\<lambda>r. r\<lparr>ts_unit := u\<rparr>) (rows w)\<rparr>"

text \<open>
  \<open>reset_index\<close> turns the index levels of a wide table into ordinary columns. A
  \<open>ts_row\<close> holds them as fields either way, so the table reads the same after it.
\<close>

definition reset_index :: "timeseries_df \<Rightarrow> timeseries_df" where
  "reset_index w = w"

text \<open>
  \<open>IamDataFrame(output_ts)\<close> builds a new long table from a wide one: one row per series
  and column whose cell is not missing. The time column's name follows the kind of the
  column labels, which the wide table took from the table it was made of.
\<close>

definition long_rows :: "time_point list \<Rightarrow> ts_row \<Rightarrow> row list" where
  "long_rows cols r =
     concat (map (\<lambda>t. case cells r t of
                         None \<Rightarrow> []
                       | Some x \<Rightarrow>
                           [\<lparr>model = ts_model r, scenario = ts_scenario r, region = ts_region r,
                             variable = ts_variable r, unit = ts_unit r, time = t, val = x\<rparr>])
                 cols)"

definition IamDataFrame :: "string \<Rightarrow> timeseries_df \<Rightarrow> iam_data_frame" where
  "IamDataFrame tc w = \<lparr>data = concat (map (long_rows (columns w)) (rows w)), time_col = tc\<rparr>"

section \<open>Errors\<close>

text \<open>Each exception of the module is a value: its class and what its message reports.\<close>

datatype message =
    More_than_one_leader
  | No_data_of_appropriate_type
  | No_data_for_leaders "string list"
  | No_data_for_follower string
  | Time_column_differs string
  | Nothing_to_infill "string list"
  | Multiple_units_for_lead
  | Units_differ string string
  | Timepoints_missing "time_point list" "time_point list"
  | Not_a_key
  | Not_a_column
  | Not_a_frame
  | No_follower_unit

datatype error =
    NotImplementedError message
  | ValueError message
  | AssertionError message
  | KeyError message
  | AttributeError message
  | IndexError message

section \<open>Deriving the relationship\<close>

text \<open>
  An interpolator is a function on leader values; \<open>make_interpolator\<close> returns a
  dictionary from time step to interpolator, here an association list in the
  dictionary's key order. \<open>_make_wide_db\<close> and \<open>make_interpolator\<close> belong to
  \<open>silicone.utils\<close>; \<open>derive_relationship\<close> takes them as parameters, and either may
  raise.
\<close>

type_synonym interpolators = "(time_point \<times> (real \<Rightarrow> real)) list"

text \<open>What the returned \<open>filler\<close> closes over.\<close>

record filler_closure =
  variable_follower :: string
  variable_leaders :: "string list"
  leader_units :: string
  follower_units :: "string list"
  use_db_time_col :: string
  interpolators :: interpolators

definition derive_relationship ::
  "(iam_data_frame \<Rightarrow> error + 'w) \<Rightarrow>
   (string \<Rightarrow> string list \<Rightarrow> 'w \<Rightarrow> string \<Rightarrow> error + interpolators) \<Rightarrow>
   iam_data_frame \<Rightarrow> string \<Rightarrow> string list \<Rightarrow> scenario_pattern \<Rightarrow> error + filler_closure" where
  "derive_relationship make_wide_db make_interpolator db follower leaders required_scenario =
     (if length leaders \<noteq> 1 then Inl (NotImplementedError More_than_one_leader)
      else
        let use_db = filter_scenario_variable required_scenario [hd leaders, follower] db in
        if data use_db = [] then Inl (ValueError No_data_of_appropriate_type)
        else
          let leader_units = get_unit_of_variable use_db leaders;
              follower_units = get_unit_of_variable use_db [follower] in
          if length leader_units = 0 then Inl (ValueError (No_data_for_leaders leaders))
          else if length follower_units = 0 then Inl (ValueError (No_data_for_follower follower))
          else
            (case make_wide_db use_db of
               Inl e \<Rightarrow> Inl e
             | Inr wide \<Rightarrow>
                 (case make_interpolator follower leaders wide (time_col use_db) of
                    Inl e \<Rightarrow> Inl e
                  | Inr interps \<Rightarrow>
                      Inr \<lparr>variable_follower = follower, variable_leaders = leaders,
                           leader_units = hd leader_units, follower_units = follower_units,
                           use_db_time_col = time_col use_db, interpolators = interps\<rparr>)))"

section \<open>The filler function\<close>

text \<open>
  The filler receives a reference to a table, builds new tables and updates one of them
  in place. To tell a new table from the caller's, tables live in a store: an address
  is an index into the list of objects, and a new object is put at the end.
  \<open>in_iamdf.filter(...)\<close>, \<open>.timeseries()\<close> and \<open>IamDataFrame(...)\<close> each make a
  new object; \<open>output_ts[time] = ...\<close>, \<open>reset_index(inplace=True)\<close> and the two
  column assignments write to the object \<open>output_ts\<close> refers to.
\<close>

datatype obj = Frame iam_data_frame | Table timeseries_df

type_synonym addr = nat

type_synonym store = "obj list"

definition alloc :: "obj \<Rightarrow> store \<Rightarrow> addr \<times> store" where
  "alloc ob s = (length s, s @ [ob])"

definition frame_at :: "store \<Rightarrow> addr \<Rightarrow> iam_data_frame option" where
  "frame_at s a =
     (if a < length s then (case s ! a of Frame df \<Rightarrow> Some df | Table w \<Rightarrow> None) else None)"

definition table_at :: "store \<Rightarrow> addr \<Rightarrow> timeseries_df option" where
  "table_at s a =
     (if a < length s then (case s ! a of Table w \<Rightarrow> Some w | Frame df \<Rightarrow> None) else None)"

definition update_table :: "addr \<Rightarrow> (timeseries_df \<Rightarrow> timeseries_df) \<Rightarrow> store \<Rightarrow> store" where
  "update_table a f s = (case table_at s a of None \<Rightarrow> s | Some w \<Rightarrow> s[a := Table (f w)])"

text \<open>
  The loop \<open>for time in times_needed: output_ts[time] = interpolators[time](output_ts[time])\<close>.
  Reading \<open>interpolators[time]\<close> or the column \<open>output_ts[time]\<close> raises KeyError when
  the key or the column is absent. \<open>times_needed\<close> is a Python set; the list gives its
  members once each, in some order.
\<close>

fun apply_interpolators ::
  "interpolators \<Rightarrow> time_point list \<Rightarrow> addr \<Rightarrow> store \<Rightarrow> error option \<times> store" where
  "apply_interpolators ip [] output_ts s = (None, s)"
| "apply_interpolators ip (t # ts) output_ts s =
     (case map_of ip t of
        None \<Rightarrow> (Some (KeyError Not_a_key), s)
      | Some f \<Rightarrow>
          (case table_at s output_ts of
             None \<Rightarrow> (Some (AttributeError Not_a_frame), s)
           | Some w \<Rightarrow>
               if t \<in> set (columns w)
               then apply_interpolators ip ts output_ts (s[output_ts := Table (set_column t f w)])
               else (Some (KeyError Not_a_column), s)))"

definition filler :: "filler_closure \<Rightarrow> addr \<Rightarrow> store \<Rightarrow> (error + addr) \<times> store" where
  "filler c in_iamdf s =
     (case frame_at s in_iamdf of
        None \<Rightarrow> (Inl (AttributeError Not_a_frame), s)
      | Some df \<Rightarrow>
          if use_db_time_col c \<noteq> time_col df
          then (Inl (ValueError (Time_column_differs (use_db_time_col c))), s)
          else
            let var_units = get_unit_of_variable df (variable_leaders c) in
            if length var_units = 0
            then (Inl (ValueError (Nothing_to_infill (variable_leaders c))), s)
            else
              let lv = filter_variable (variable_leaders c) df;
                  (lead_var, s1) = alloc (Frame lv) s in
              if length (unique (map unit (data lv))) \<noteq> 1
              then (Inl (AssertionError Multiple_units_for_lead), s1)
              else if hd var_units \<noteq> leader_units c
              then (Inl (ValueError (Units_differ (leader_units c) (hd var_units))), s1)
              else
                let times_needed = unique (map time (data df)) in
                if list_ex (\<lambda>x. x \<notin> set (map fst (interpolators c))) times_needed
                then
                  let (passed_in, s2) = alloc (Table (timeseries df)) s1 in
                  (Inl (ValueError (Timepoints_missing (map fst (interpolators c))
                                      (columns (timeseries df)))), s2)
                else
                  let (output_ts, s2) = alloc (Table (timeseries lv)) s1 in
                  (case apply_interpolators (interpolators c) times_needed output_ts s2 of
                     (Some e, s3) \<Rightarrow> (Inl e, s3)
                   | (None, s3) \<Rightarrow>
                       let s4 = update_table output_ts reset_index s3;
                           s5 = update_table output_ts (set_variable (variable_follower c)) s4 in
                       (case follower_units c of
                          [] \<Rightarrow> (Inl (IndexError No_follower_unit), s5)
                        | u # _ \<Rightarrow>
                            let s6 = update_table output_ts (set_unit u) s5 in
                            (case table_at s6 output_ts of
                               None \<Rightarrow> (Inl (AttributeError Not_a_frame), s6)
                             | Some w \<Rightarrow>
                                 let (result, s7) = alloc (Frame (IamDataFrame (time_col df) w)) s6
                                 in (Inr result, s7)))))"

section \<open>The parts the specification describes\<close>










section \<open>Indices and keys\<close>

text \<open>
  The (model, scenario, region) index of a row of the long form, and the pairs of index
  and time step at which a wide table holds a value.
\<close>

definition index_of :: "row \<Rightarrow> string \<times> string \<times> string" where
  "index_of r = (model r, scenario r, region r)"

definition keys_of :: "timeseries_df \<Rightarrow> ((string \<times> string \<times> string) \<times> time_point) set" where
  "keys_of w =
     (\<Union>r\<in>set (rows w).
        (\<lambda>t. ((ts_model r, ts_scenario r, ts_region r), t)) ` {t \<in> set (columns w). cells r t \<noteq> None})"

subsection \<open>Example data\<close>

text \<open>
  \<open>small_db\<close> is the table of that name of the test module. \<open>crunched_2010\<close> is a
  filler for methane from carbon dioxide whose reference database had the year 2010
  alone; \<open>downscale_2030\<close> asks for the year 2030, and \<open>two_units_2030\<close> does so with
  the leader in two units.
\<close>

definition small_db :: iam_data_frame where
  "small_db =
     \<lparr>data =
        [\<lparr>model = ''model_b'', scenario = ''scen_a'', region = ''World'',
          variable = ''Emissions|CO2'', unit = ''Gt C/yr'', time = 2010, val = 1.2\<rparr>,
         \<lparr>model = ''model_a'', scenario = ''scen_b'', region = ''World'',
          variable = ''Emissions|CO2'', unit = ''Gt C/yr'', time = 2010, val = 2.3\<rparr>],
      time_col = ''year''\<rparr>"

definition crunched_2010 :: filler_closure where
  "crunched_2010 =
     \<lparr>variable_follower = ''Emissions|CH4'', variable_leaders = [''Emissions|CO2''],
      leader_units = ''Gt C/yr'', follower_units = [''Mt CH4/yr''],
      use_db_time_col = ''year'', interpolators = [(2010, \<lambda>x. 100 * x)]\<rparr>"

definition downscale_2030 :: iam_data_frame where
  "downscale_2030 =
     \<lparr>data =
        [\<lparr>model = ''model_c'', scenario = ''scen_a'', region = ''World'',
          variable = ''Emissions|CO2'', unit = ''Gt C/yr'', time = 2030, val = 2\<rparr>],
      time_col = ''year''\<rparr>"

definition two_units_2030 :: iam_data_frame where
  "two_units_2030 =
     \<lparr>data =
        [\<lparr>model = ''model_c'', scenario = ''scen_a'', region = ''World'',
          variable = ''Emissions|CO2'', unit = ''Gt C/yr'', time = 2030, val = 2\<rparr>,
         \<lparr>model = ''model_c'', scenario = ''scen_b'', region = ''World'',
          variable = ''Emissions|CO2'', unit = ''Mt C/yr'', time = 2030, val = 2000\<rparr>],
      time_col = ''year''\<rparr>"




section \<open>Lemmas\<close>

lemma set_unique: "set (unique xs) = set xs"
  by (simp add: unique_def)

lemma loop_local:
  "ot < length s \<Longrightarrow>
   apply_interpolators ip ts ot s =
     (fst (apply_interpolators ip ts 0 [s ! ot]),
      s[ot := hd (snd (apply_interpolators ip ts 0 [s ! ot]))])"
proof (induction ts arbitrary: s)
  case Nil
  then show ?case by simp
next
  case (Cons t ts)
  show ?case
  proof (cases "map_of ip t")
    case None
    then show ?thesis by simp
  next
    case (Some f)
    show ?thesis
    proof (cases "s ! ot")
      case (Frame df)
      with Some Cons.prems list_update_id[of s ot] show ?thesis by (simp add: table_at_def)
    next
      case (Table w)
      show ?thesis
      proof (cases "t \<in> set (columns w)")
        case True
        have "ot < length (s[ot := Table (set_column t f w)])" using Cons.prems by simp
        from Cons.IH[OF this] Some Table True Cons.prems
        show ?thesis by (simp add: table_at_def)
      next
        case False
        with Some Table Cons.prems list_update_id[of s ot] show ?thesis by (simp add: table_at_def)
      qed
    qed
  qed
qed

lemma columns_set_column: "columns (set_column t f w) = columns w"
  by (simp add: set_column_def)

lemma present_set_column:
  "{t' \<in> C. \<exists>y. ((cells r)(t := map_option f (cells r t))) t' = Some y} =
   {t' \<in> C. \<exists>y. cells r t' = Some y}"
  by auto

lemma keys_of_set_column: "keys_of (set_column t f w) = keys_of w"
  unfolding keys_of_def set_column_def
  by (simp add: image_image present_set_column del: fun_upd_apply)

lemma loop_table:
  "\<exists>w'. snd (apply_interpolators ip ts 0 [Table w]) = [Table w'] \<and>
        columns w' = columns w \<and> keys_of w' = keys_of w"
proof (induction ts arbitrary: w)
  case Nil
  then show ?case by simp
next
  case (Cons t ts)
  show ?case
  proof (cases "map_of ip t")
    case None
    then show ?thesis by simp
  next
    case (Some f)
    show ?thesis
    proof (cases "t \<in> set (columns w)")
      case True
      from Cons.IH[of "set_column t f w"] Some True
      show ?thesis by (auto simp: table_at_def columns_set_column keys_of_set_column)
    next
      case False
      with Some show ?thesis by (simp add: table_at_def)
    qed
  qed
qed

lemma loop_at_end:
  "\<exists>w'. apply_interpolators ip ts (length s) (s @ [Table w]) =
          (fst (apply_interpolators ip ts 0 [Table w]), s @ [Table w']) \<and>
        snd (apply_interpolators ip ts 0 [Table w]) = [Table w'] \<and>
        columns w' = columns w \<and> keys_of w' = keys_of w"
proof -
  obtain w' where w': "snd (apply_interpolators ip ts 0 [Table w]) = [Table w']"
    "columns w' = columns w" "keys_of w' = keys_of w"
    using loop_table by blast
  have "apply_interpolators ip ts (length s) (s @ [Table w]) =
          (fst (apply_interpolators ip ts 0 [Table w]), s @ [Table w'])"
    using loop_local[of "length s" "s @ [Table w]" ip ts] w'(1) by simp
  with w' show ?thesis by blast
qed

lemma filler_success:
  assumes "frame_at s a = Some df" and "filler c a s = (Inr b, s')"
  shows "\<exists>w u us. follower_units c = u # us \<and>
           keys_of w = keys_of (timeseries (filter_variable (variable_leaders c) df)) \<and>
           columns w = columns (timeseries (filter_variable (variable_leaders c) df)) \<and>
           b = length s + 2 \<and>
           s' = s @ [Frame (filter_variable (variable_leaders c) df),
                     Table (set_unit u (set_variable (variable_follower c) w)),
                     Frame (IamDataFrame (time_col df)
                              (set_unit u (set_variable (variable_follower c) w)))]"
proof -
  let ?lv = "filter_variable (variable_leaders c) df"
  obtain w' where w':
    "apply_interpolators (interpolators c) (unique (map time (data df))) (length (s @ [Frame ?lv]))
        ((s @ [Frame ?lv]) @ [Table (timeseries ?lv)]) =
       (fst (apply_interpolators (interpolators c) (unique (map time (data df))) 0 [Table (timeseries ?lv)]),
        (s @ [Frame ?lv]) @ [Table w'])"
    "columns w' = columns (timeseries ?lv)" "keys_of w' = keys_of (timeseries ?lv)"
    using loop_at_end[of "interpolators c" "unique (map time (data df))" "s @ [Frame ?lv]" "timeseries ?lv"]
    by blast
  from assms w' show ?thesis
    by (auto simp: filler_def alloc_def Let_def update_table_def reset_index_def table_at_def nth_append
          list_update_append
          split: if_splits option.splits list.splits prod.splits intro!: exI[of _ w'])
qed

lemma keys_of_set_variable: "keys_of (set_variable v w) = keys_of w"
  unfolding keys_of_def set_variable_def by (simp add: image_image)

lemma keys_of_set_unit: "keys_of (set_unit u w) = keys_of w"
  unfolding keys_of_def set_unit_def by (simp add: image_image)

lemma keys_of_iff:
  "x \<in> keys_of w \<longleftrightarrow>
     (\<exists>r\<in>set (rows w). \<exists>t\<in>set (columns w).
        cells r t \<noteq> None \<and> x = ((ts_model r, ts_scenario r, ts_region r), t))"
  by (auto simp: keys_of_def)

lemma data_IamDataFrame_iff:
  "x \<in> set (data (IamDataFrame tc w)) \<longleftrightarrow>
     (\<exists>r\<in>set (rows w). \<exists>t\<in>set (columns w). \<exists>v. cells r t = Some v \<and>
        x = \<lparr>model = ts_model r, scenario = ts_scenario r, region = ts_region r,
             variable = ts_variable r, unit = ts_unit r, time = t, val = v\<rparr>)"
  by (auto simp: IamDataFrame_def long_rows_def split: option.splits) force

lemma keys_of_IamDataFrame:
  "(\<lambda>r. (index_of r, time r)) ` set (data (IamDataFrame tc w)) = keys_of w"
proof
  show "(\<lambda>r. (index_of r, time r)) ` set (data (IamDataFrame tc w)) \<subseteq> keys_of w"
  proof
    fix x assume "x \<in> (\<lambda>r. (index_of r, time r)) ` set (data (IamDataFrame tc w))"
    then obtain y where y: "y \<in> set (data (IamDataFrame tc w))" and x: "x = (index_of y, time y)"
      by blast
    from y obtain r t v where r: "r \<in> set (rows w)" "t \<in> set (columns w)" "cells r t = Some v"
      and yr: "y = \<lparr>model = ts_model r, scenario = ts_scenario r, region = ts_region r,
             variable = ts_variable r, unit = ts_unit r, time = t, val = v\<rparr>"
      unfolding data_IamDataFrame_iff by blast
    have "x = ((ts_model r, ts_scenario r, ts_region r), t)"
      using x yr by (simp add: index_of_def)
    with r show "x \<in> keys_of w" unfolding keys_of_iff by auto
  qed
next
  show "keys_of w \<subseteq> (\<lambda>r. (index_of r, time r)) ` set (data (IamDataFrame tc w))"
  proof
    fix x assume "x \<in> keys_of w"
    then obtain r t v where r: "r \<in> set (rows w)" "t \<in> set (columns w)" "cells r t = Some v"
      and x: "x = ((ts_model r, ts_scenario r, ts_region r), t)"
      unfolding keys_of_iff by auto
    let ?y = "\<lparr>model = ts_model r, scenario = ts_scenario r, region = ts_region r,
             variable = ts_variable r, unit = ts_unit r, time = t, val = v\<rparr>"
    have "?y \<in> set (data (IamDataFrame tc w))"
      unfolding data_IamDataFrame_iff using r by blast
    moreover have "x = (index_of ?y, time ?y)" using x by (simp add: index_of_def)
    ultimately show "x \<in> (\<lambda>r. (index_of r, time r)) ` set (data (IamDataFrame tc w))"
      by blast
  qed
qed

lemma cells_series_of:
  "(cells (series_of rs k) t \<noteq> None) = (\<exists>r\<in>set rs. identity_of r = k \<and> time r = t)"
  by (cases k) (auto simp: series_of_def find_None_iff)

lemma keys_of_timeseries:
  "keys_of (timeseries df) = (\<lambda>r. (index_of r, time r)) ` set (data df)"
proof
  show "keys_of (timeseries df) \<subseteq> (\<lambda>r. (index_of r, time r)) ` set (data df)"
  proof
    fix x assume "x \<in> keys_of (timeseries df)"
    then obtain r0 t where r0: "r0 \<in> set (rows (timeseries df))"
      and x0: "x = ((ts_model r0, ts_scenario r0, ts_region r0), t)"
      and c0: "cells r0 t \<noteq> None"
      unfolding keys_of_iff by blast
    from r0 obtain k where r0k: "r0 = series_of (data df) k"
      by (auto simp: timeseries_def)
    have x: "x = ((ts_model (series_of (data df) k), ts_scenario (series_of (data df) k),
                   ts_region (series_of (data df) k)), t)"
      and c: "cells (series_of (data df) k) t \<noteq> None"
      using x0 c0 r0k by simp_all
    from c obtain r where r: "r \<in> set (data df)" "identity_of r = k" "time r = t"
      using cells_series_of by blast
    have "x = (index_of r, time r)"
      using x r by (cases k) (auto simp: series_of_def identity_of_def index_of_def)
    with r show "x \<in> (\<lambda>r. (index_of r, time r)) ` set (data df)" by blast
  qed
next
  show "(\<lambda>r. (index_of r, time r)) ` set (data df) \<subseteq> keys_of (timeseries df)"
  proof
    fix x assume "x \<in> (\<lambda>r. (index_of r, time r)) ` set (data df)"
    then obtain r where r: "r \<in> set (data df)" and x: "x = (index_of r, time r)" by blast
    let ?k = "identity_of r"
    have c: "cells (series_of (data df) ?k) (time r) \<noteq> None"
      using r cells_series_of by blast
    have i: "(ts_model (series_of (data df) ?k), ts_scenario (series_of (data df) ?k),
             ts_region (series_of (data df) ?k)) = index_of r"
      by (simp add: series_of_def identity_of_def index_of_def)
    have "series_of (data df) ?k \<in> set (rows (timeseries df))"
      using r by (simp add: timeseries_def set_unique)
    moreover have "time r \<in> set (columns (timeseries df))"
      using r by (simp add: timeseries_def)
    ultimately show "x \<in> keys_of (timeseries df)"
      unfolding keys_of_iff using c i x by (metis (no_types, lifting))
  qed
qed

lemma IamDataFrame_labels:
  "r \<in> set (data (IamDataFrame tc (set_unit u (set_variable v w)))) \<Longrightarrow>
   variable r = v \<and> unit r = u"
  by (auto simp: IamDataFrame_def long_rows_def set_unit_def set_variable_def split: option.splits)

lemma filler_no_result_when_missing:
  assumes "frame_at s a = Some df"
    and "list_ex (\<lambda>t. t \<notin> set (map fst (interpolators c))) (map time (data df))"
  shows "\<exists>e. fst (filler c a s) = Inl e"
proof -
  have "list_ex (\<lambda>t. t \<notin> set (map fst (interpolators c))) (unique (map time (data df)))"
    using assms(2) by (simp add: list_ex_iff set_unique)
  with assms(1) show ?thesis
    by (simp add: filler_def Let_def alloc_def split: prod.splits)
qed

lemma filler_timepoints_error:
  assumes "frame_at s a = Some df"
    and "list_ex (\<lambda>t. t \<notin> set (map fst (interpolators c))) (map time (data df))"
    and "use_db_time_col c = time_col df"
    and "get_unit_of_variable df (variable_leaders c) = [leader_units c]"
  shows "fst (filler c a s) =
           Inl (ValueError (Timepoints_missing (map fst (interpolators c)) (columns (timeseries df))))"
proof -
  have m: "list_ex (\<lambda>t. t \<notin> set (map fst (interpolators c))) (unique (map time (data df)))"
    using assms(2) by (simp add: list_ex_iff set_unique)
  have u: "length (unique (map unit (data (filter_variable (variable_leaders c) df)))) = 1"
    using assms(4) by (simp add: get_unit_of_variable_def)
  from assms(1,3,4) m u show ?thesis
    by (simp add: filler_def Let_def alloc_def split: prod.splits)
qed

lemma columns_timeseries: "set (columns (timeseries df)) = time ` set (data df)"
  by (simp add: timeseries_def)

lemma loop_at_end2:
  assumes "snd (apply_interpolators ip ts 0 [Table w]) = [Table w']"
  shows "apply_interpolators ip ts (length s) (s @ [Table w]) =
          (fst (apply_interpolators ip ts 0 [Table w]), s @ [Table w'])"
  using loop_local[of "length s" "s @ [Table w]" ip ts] assms by simp

lemma filler_local:
  assumes "frame_at s a = Some df"
  shows "\<exists>r objs. filler c 0 [Frame df] = (r, Frame df # objs) \<and>
           filler c a s = (map_sum id (\<lambda>b. b + length s - 1) r, s @ objs)"
proof -
  let ?lv = "filter_variable (variable_leaders c) df"
  let ?ts = "unique (map time (data df))"
  obtain w' where w': "snd (apply_interpolators (interpolators c) ?ts 0 [Table (timeseries ?lv)]) = [Table w']"
    using loop_table by blast
  have A: "apply_interpolators (interpolators c) ?ts (length (s @ [Frame ?lv]))
        ((s @ [Frame ?lv]) @ [Table (timeseries ?lv)]) =
       (fst (apply_interpolators (interpolators c) ?ts 0 [Table (timeseries ?lv)]),
        (s @ [Frame ?lv]) @ [Table w'])"
    by (rule loop_at_end2[OF w'])
  have B: "apply_interpolators (interpolators c) ?ts (length ([Frame df] @ [Frame ?lv]))
        (([Frame df] @ [Frame ?lv]) @ [Table (timeseries ?lv)]) =
       (fst (apply_interpolators (interpolators c) ?ts 0 [Table (timeseries ?lv)]),
        ([Frame df] @ [Frame ?lv]) @ [Table w'])"
    by (rule loop_at_end2[OF w'])
  have f0: "frame_at [Frame df] 0 = Some df" by (simp add: frame_at_def)
  show ?thesis
    unfolding filler_def using assms f0 A B
    by (auto simp: alloc_def Let_def update_table_def reset_index_def table_at_def nth_append
          list_update_append
          split: if_splits option.splits list.splits prod.splits)
qed

lemma frame_at_append: "frame_at s a = Some df \<Longrightarrow> frame_at (s @ xs) a = Some df"
  by (auto simp: frame_at_def nth_append split: if_splits)

lemma filler_not_a_frame:
  "frame_at s a = None \<Longrightarrow> filler c a s = (Inl (AttributeError Not_a_frame), s)"
  by (simp add: filler_def)

lemma filler_twice:
  assumes "frame_at s a = Some df"
  shows "\<exists>r objs. filler c a s = (map_sum id (\<lambda>b. b + length s - 1) r, s @ objs) \<and>
           filler c a (s @ objs) = (map_sum id (\<lambda>b. b + length s + length objs - 1) r, s @ objs @ objs) \<and>
           (\<forall>b. r = Inr b \<longrightarrow> b = 3 \<and> length objs = 3 \<and> (\<exists>out. objs ! 2 = Frame out))"
proof -
  obtain r objs where 0: "filler c 0 [Frame df] = (r, Frame df # objs)"
    and 1: "filler c a s = (map_sum id (\<lambda>b. b + length s - 1) r, s @ objs)"
    using filler_local[OF assms] by blast
  have "frame_at (s @ objs) a = Some df" using assms by (rule frame_at_append)
  from filler_local[OF this, of c] 0
  have 2: "filler c a (s @ objs) =
             (map_sum id (\<lambda>b. b + length s + length objs - 1) r, s @ objs @ objs)"
    by (auto simp: add.assoc)
  have 3: "\<forall>b. r = Inr b \<longrightarrow> b = 3 \<and> length objs = 3 \<and> (\<exists>out. objs ! 2 = Frame out)"
  proof (intro allI impI)
    fix b assume "r = Inr b"
    with 0 have "filler c 0 [Frame df] = (Inr b, Frame df # objs)" by simp
    moreover have "frame_at [Frame df] 0 = Some df" by (simp add: frame_at_def)
    ultimately show "b = 3 \<and> length objs = 3 \<and> (\<exists>out. objs ! 2 = Frame out)"
      using filler_success[of "[Frame df]" 0 df c b "Frame df # objs"] by auto
  qed
  from 1 2 3 show ?thesis by blast
qed







section \<open>Properties\<close>




text \<open>
  C6, amended. Take a call of the filler whose input holds a time step for which the
  relationship has no interpolator. No result is returned. When the input passes the
  checks that come first (the time column is the one the relationship was built with,
  and the leader is there in one unit only, the recorded one), the exception is the
  ValueError that lists the crunched time steps (the keys of the interpolators) and the
  requested ones (the time columns of the input, which are its time steps).
\<close>

theorem filler_missing_timepoints:
  assumes "frame_at s in_iamdf = Some df"
    and "list_ex (\<lambda>t. t \<notin> set (map fst (interpolators c))) (map time (data df))"
  shows "(\<exists>e. fst (filler c in_iamdf s) = Inl e) \<and>
         (use_db_time_col c = time_col df \<and>
          get_unit_of_variable df (variable_leaders c) = [leader_units c] \<longrightarrow>
            fst (filler c in_iamdf s) =
              Inl (ValueError (Timepoints_missing (map fst (interpolators c))
                                 (columns (timeseries df)))) \<and>
            set (columns (timeseries df)) = time ` set (data df))"
  using assms filler_no_result_when_missing filler_timepoints_error columns_timeseries
  by blast

theorem filler_missing_timepoints_witness:
  "frame_at [Frame downscale_2030] 0 = Some downscale_2030 \<and>
   list_ex (\<lambda>t. t \<notin> set (map fst (interpolators crunched_2010)))
     (map time (data downscale_2030)) \<and>
   use_db_time_col crunched_2010 = time_col downscale_2030 \<and>
   get_unit_of_variable downscale_2030 (variable_leaders crunched_2010) =
     [leader_units crunched_2010] \<and>
   fst (filler crunched_2010 0 [Frame downscale_2030]) =
     Inl (ValueError (Timepoints_missing [2010] [2030]))"
proof -
  have f: "frame_at [Frame downscale_2030] 0 = Some downscale_2030"
    by (simp add: frame_at_def)
  have m: "list_ex (\<lambda>t. t \<notin> set (map fst (interpolators crunched_2010)))
             (map time (data downscale_2030))"
    by (simp add: crunched_2010_def downscale_2030_def)
  have t: "use_db_time_col crunched_2010 = time_col downscale_2030"
    by (simp add: crunched_2010_def downscale_2030_def)
  have u: "get_unit_of_variable downscale_2030 (variable_leaders crunched_2010) =
             [leader_units crunched_2010]"
    by (simp add: crunched_2010_def downscale_2030_def get_unit_of_variable_def
          filter_variable_def unique_def)
  have k: "map fst (interpolators crunched_2010) = [2010]"
    by (simp add: crunched_2010_def)
  have c: "columns (timeseries downscale_2030) = [2030]"
    by (simp add: timeseries_def downscale_2030_def)
  from filler_missing_timepoints [OF f m] t u
  have "fst (filler crunched_2010 0 [Frame downscale_2030]) =
          Inl (ValueError (Timepoints_missing (map fst (interpolators crunched_2010))
                             (columns (timeseries downscale_2030))))"
    by blast
  with f m t u k c show ?thesis by simp
qed

text \<open>
  C6 as stated fails: the input \<open>two_units_2030\<close> asks for 2030, which the relationship
  does not have, and the call ends in the assertion on the leader's units, which is
  checked before the time steps.
\<close>

theorem filler_missing_timepoints_counterexample:
  "frame_at [Frame two_units_2030] 0 = Some two_units_2030 \<and>
   list_ex (\<lambda>t. t \<notin> set (map fst (interpolators crunched_2010)))
     (map time (data two_units_2030)) \<and>
   fst (filler crunched_2010 0 [Frame two_units_2030]) =
     Inl (AssertionError Multiple_units_for_lead)"
  by (simp add: filler_def crunched_2010_def two_units_2030_def frame_at_def alloc_def
        get_unit_of_variable_def filter_variable_def unique_def Let_def)

text \<open>
  C7. When a call of the filler succeeds, the result is a table all of whose rows carry
  the follower variable and the first unit recorded for the follower; it holds a row
  for a (model, scenario, region) index and time step exactly when the leader rows of
  the input do.
\<close>

theorem filler_output_follower_only:
  assumes "frame_at s in_iamdf = Some df" and "filler c in_iamdf s = (Inr result, s')"
  shows "\<exists>out u us. frame_at s' result = Some out \<and> follower_units c = u # us \<and>
           (\<forall>r\<in>set (data out). variable r = variable_follower c \<and> unit r = u) \<and>
           (\<lambda>r. (index_of r, time r)) ` set (data out) =
           (\<lambda>r. (index_of r, time r)) ` set (data (filter_variable (variable_leaders c) df))"
proof -
  from filler_success[OF assms] obtain w u us where
    u: "follower_units c = u # us"
    and k: "keys_of w = keys_of (timeseries (filter_variable (variable_leaders c) df))"
    and b: "result = length s + 2"
    and s': "s' = s @ [Frame (filter_variable (variable_leaders c) df),
                     Table (set_unit u (set_variable (variable_follower c) w)),
                     Frame (IamDataFrame (time_col df)
                              (set_unit u (set_variable (variable_follower c) w)))]"
    by blast
  let ?out = "IamDataFrame (time_col df) (set_unit u (set_variable (variable_follower c) w))"
  have 1: "frame_at s' result = Some ?out"
    by (simp add: frame_at_def b s' nth_append)
  have 2: "\<forall>r\<in>set (data ?out). variable r = variable_follower c \<and> unit r = u"
    using IamDataFrame_labels by blast
  have 3: "(\<lambda>r. (index_of r, time r)) ` set (data ?out) =
           (\<lambda>r. (index_of r, time r)) ` set (data (filter_variable (variable_leaders c) df))"
    by (simp only: keys_of_IamDataFrame keys_of_set_unit keys_of_set_variable k keys_of_timeseries)
  from 1 2 3 u show ?thesis by blast
qed

theorem filler_output_follower_only_witness:
  "frame_at [Frame small_db] 0 = Some small_db \<and>
   fst (filler crunched_2010 0 [Frame small_db]) = Inr 3 \<and>
   (\<exists>out u us. frame_at (snd (filler crunched_2010 0 [Frame small_db])) 3 = Some out \<and>
      follower_units crunched_2010 = u # us \<and>
      (\<forall>r\<in>set (data out). variable r = variable_follower crunched_2010 \<and> unit r = u) \<and>
      (\<lambda>r. (index_of r, time r)) ` set (data out) =
      (\<lambda>r. (index_of r, time r)) `
        set (data (filter_variable (variable_leaders crunched_2010) small_db)))"
proof -
  have f: "frame_at [Frame small_db] 0 = Some small_db"
    by (simp add: frame_at_def)
  have e: "fst (filler crunched_2010 0 [Frame small_db]) = Inr 3"
    by (simp add: filler_def crunched_2010_def small_db_def frame_at_def table_at_def alloc_def
          get_unit_of_variable_def filter_variable_def unique_def timeseries_def
          update_table_def reset_index_def Let_def split: prod.splits)
  then have r: "filler crunched_2010 0 [Frame small_db] =
                  (Inr 3, snd (filler crunched_2010 0 [Frame small_db]))"
    by (metis prod.collapse)
  from filler_output_follower_only [OF f r] f e show ?thesis by blast
qed

text \<open>
  C8. A call of \<open>derive_relationship\<close> whose \<open>variable_leaders\<close> does not have exactly
  one element raises the NotImplementedError, whatever the database holds (an empty one
  too) and whatever the other arguments are: the check comes before the database is
  filtered, so it wins over the "no data of the appropriate type" error.
\<close>

theorem derive_relationship_leaders_first:
  "length leaders \<noteq> 1 \<Longrightarrow>
   derive_relationship mw mi db follower leaders required =
     Inl (NotImplementedError More_than_one_leader)"
  by (simp add: derive_relationship_def)

theorem derive_relationship_leaders_first_witness:
  "length [''Emissions|CH4'', ''Emissions|HFC|C5F12''] \<noteq> 1 \<and>
   derive_relationship (\<lambda>d. Inr d) (\<lambda>f l w t. Inr []) \<lparr>data = [], time_col = ''year''\<rparr>
       ''Emissions|CO2'' [''Emissions|CH4'', ''Emissions|HFC|C5F12''] (\<lambda>s. True) =
     Inl (NotImplementedError More_than_one_leader) \<and>
   derive_relationship (\<lambda>d. Inr d) (\<lambda>f l w t. Inr []) \<lparr>data = [], time_col = ''year''\<rparr>
       ''Emissions|CO2'' [''Emissions|CO2''] (\<lambda>s. True) =
     Inl (ValueError No_data_of_appropriate_type)"
  using derive_relationship_leaders_first
    [of "[''Emissions|CH4'', ''Emissions|HFC|C5F12'']" "\<lambda>d. Inr d" "\<lambda>f l w t. Inr []"
        "\<lparr>data = [], time_col = ''year''\<rparr>" "''Emissions|CO2''" "\<lambda>s. True"]
  by (simp add: derive_relationship_def filter_scenario_variable_def)

text \<open>
  C10. A call of the filler, whatever its outcome, leaves every object that was in the
  store before the call as it was: the input table and the cruncher's reference
  database among them. A result is a new object, a table. A second call with the same
  input, made after the first, returns a new table again, with the same content, and a
  call that raised raises the same exception again.
\<close>

theorem filler_leaves_store:
  assumes "filler c in_iamdf s = (r, s')"
  shows "length s \<le> length s' \<and> (\<forall>k<length s. s' ! k = s ! k) \<and>
         (case r of
            Inl e \<Rightarrow> fst (filler c in_iamdf s') = Inl e
          | Inr result \<Rightarrow>
              length s \<le> result \<and> result < length s' \<and>
              (\<exists>out result2. frame_at s' result = Some out \<and>
                 fst (filler c in_iamdf s') = Inr result2 \<and> result2 \<noteq> result \<and>
                 frame_at (snd (filler c in_iamdf s')) result2 = Some out))"
proof (cases "frame_at s in_iamdf")
  case None
  with assms filler_not_a_frame[OF None, of c] show ?thesis by auto
next
  case (Some df)
  from filler_twice[OF Some, of c] assms obtain r0 objs where
    r: "r = map_sum id (\<lambda>b. b + length s - 1) r0" and s': "s' = s @ objs"
    and 2: "filler c in_iamdf s' =
              (map_sum id (\<lambda>b. b + length s + length objs - 1) r0, s @ objs @ objs)"
    and 3: "\<forall>b. r0 = Inr b \<longrightarrow> b = 3 \<and> length objs = 3 \<and> (\<exists>out. objs ! 2 = Frame out)"
    by auto
  have a: "length s \<le> length s' \<and> (\<forall>k<length s. s' ! k = s ! k)"
    by (simp add: s' nth_append)
  show ?thesis
  proof (cases r0)
    case (Inl e)
    with r 2 a show ?thesis by simp
  next
    case (Inr b)
    with 3 obtain out where b: "b = 3" and l: "length objs = 3" and o: "objs ! 2 = Frame out"
      by blast
    have "frame_at s' (length s + 2) = Some out"
      by (simp add: frame_at_def s' l nth_append o)
    moreover have "frame_at (s @ objs @ objs) (length s + 5) = Some out"
      by (simp add: frame_at_def l nth_append o)
    ultimately show ?thesis using a r 2 Inr b l s' by (simp add: numeral_eq_Suc)
  qed
qed

theorem filler_leaves_store_witness:
  "fst (filler crunched_2010 0 [Frame small_db]) = Inr 3 \<and>
   snd (filler crunched_2010 0 [Frame small_db]) ! 0 = Frame small_db \<and>
   (\<exists>out result2.
      frame_at (snd (filler crunched_2010 0 [Frame small_db])) 3 = Some out \<and>
      fst (filler crunched_2010 0 (snd (filler crunched_2010 0 [Frame small_db]))) = Inr result2 \<and>
      result2 \<noteq> 3 \<and>
      frame_at (snd (filler crunched_2010 0 (snd (filler crunched_2010 0 [Frame small_db]))))
        result2 = Some out)"
proof -
  have e: "fst (filler crunched_2010 0 [Frame small_db]) = Inr 3"
    by (simp add: filler_def crunched_2010_def small_db_def frame_at_def table_at_def alloc_def
          get_unit_of_variable_def filter_variable_def unique_def timeseries_def
          update_table_def reset_index_def Let_def split: prod.splits)
  then have r: "filler crunched_2010 0 [Frame small_db] =
                  (Inr 3, snd (filler crunched_2010 0 [Frame small_db]))"
    by (metis prod.collapse)
  from filler_leaves_store [OF r] e show ?thesis by simp
qed

end
